theory Spec2Isabelle
  imports Complex_Main
begin

section \<open>llms-fetcher: the freshness engine of \<open>src/index.js\<close>\<close>

text \<open>
  A shallow embedding of \<open>joinUrl\<close>, \<open>fetchTextFile\<close>, \<open>fetchTextFileWithMetadata\<close>,
  \<open>readJsonSafe\<close>, \<open>writeJsonSafe\<close>, \<open>ensureFreshLlmsFile\<close> and \<open>msUntilNextRunAt\<close>.
  Everything the JavaScript takes from its surroundings is explicit: the clock, the two
  files, the HTTP peer, the failures of the file system, and Node's \<open>URL\<close> class.
\<close>

subsection \<open>JavaScript values\<close>

text \<open>
  A JavaScript number: a finite value (kept exact, as a rational; rounding of doubles is
  not modelled) or one of the three non-finite values.
\<close>

datatype number = Num rat | NaN | PosInfinity | NegInfinity

text \<open>\<open>Number.isFinite\<close>\<close>

fun isFinite :: "number \<Rightarrow> bool" where
  "isFinite (Num q) = True"
| "isFinite NaN = False"
| "isFinite PosInfinity = False"
| "isFinite NegInfinity = False"

text \<open>
  Truthiness of a value that is a string, \<open>null\<close> or \<open>undefined\<close>
  (\<open>None\<close> stands for both of the latter): only a non-empty string is truthy.
\<close>

fun truthy :: "string option \<Rightarrow> bool" where
  "truthy None = False"
| "truthy (Some s) = (s \<noteq> [])"

text \<open>\<open>x || null\<close> on such a value.\<close>

definition or_null :: "string option \<Rightarrow> string option" where
  "or_null x = (if truthy x then x else None)"

text \<open>Decimal rendering of a non-negative integer inside a template string.\<close>

definition digit_char :: "nat \<Rightarrow> char" where
  "digit_char d = char_of (48 + d)"

fun show_nat :: "nat \<Rightarrow> string" where
  "show_nat n = (if n < 10 then [digit_char n] else show_nat (n div 10) @ [digit_char (n mod 10)])"

declare show_nat.simps [simp del]

text \<open>
  The \<open>Error\<close> objects the module creates or passes on, one constructor per
  \<open>new Error(...)\<close> of the source; \<open>OtherError\<close> is an error raised by Node itself
  (a connection error of the socket, an error of the file system).
\<close>

datatype js_error =
    PublicUrlRequired
  | InvalidUrl string
  | RequestFailed nat
  | RequestTimedOut
  | OtherError string

fun message :: "js_error \<Rightarrow> string" where
  "message PublicUrlRequired = ''publicUrl is required''"
| "message (InvalidUrl u) = ''Invalid URL: '' @ u"
| "message (RequestFailed status) = ''Request failed with status '' @ show_nat status"
| "message RequestTimedOut = ''Request timed out''"
| "message (OtherError m) = m"

text \<open>
  How a promise ends: fulfilled, rejected, or never settled because an exception escaped
  from a callback of the event loop (\<open>Uncaught\<close>: \<open>new URL(location, parsed)\<close> throws
  inside the response callback, outside any \<open>try\<close>). A promise that stays pending
  because the work goes on forever is the value \<open>None\<close> of the functions below.
\<close>

datatype 'a completion = Resolved 'a | Rejected js_error | Uncaught js_error

subsection \<open>Node's URL class\<close>

text \<open>
  A parsed URL with the components the module reads and writes. \<open>authority\<close> is what is
  serialised between the scheme and the path: \<open>//\<close> with the host name and the port, or
  nothing for a URL without host (credentials in a URL are not modelled). \<open>opaque_path\<close>
  marks URLs such as \<open>mailto:x\<close>, whose path cannot be assigned.
\<close>

record url =
  protocol :: string
  authority :: string
  pathname :: string
  search :: string
  hash :: string
  opaque_path :: bool

text \<open>\<open>u.toString()\<close>\<close>

definition href :: "url \<Rightarrow> string" where
  "href u = protocol u @ authority u @ pathname u @ search u @ hash u"

text \<open>
  \<open>u.pathname = p\<close>. The setter does nothing on a URL with an opaque path. The values
  assigned by \<open>joinUrl\<close> are a serialised path followed by the suffix, which the
  setter's own parsing leaves as it is.
\<close>

definition set_pathname :: "url \<Rightarrow> string \<Rightarrow> url" where
  "set_pathname u p = (if opaque_path u then u else u\<lparr>pathname := p\<rparr>)"

text \<open>
  The parser of the platform is not part of the repository, so it is a parameter:
  \<open>new_URL s\<close> is \<open>new URL(s)\<close> and \<open>new_URL_base s b\<close> is \<open>new URL(s, b)\<close>, with
  \<open>None\<close> where the constructor throws.
\<close>

record platform =
  new_URL :: "string \<Rightarrow> url option"
  new_URL_base :: "string \<Rightarrow> url \<Rightarrow> url option"

subsection \<open>joinUrl\<close>

text \<open>\<open>s.endsWith('/')\<close>\<close>

definition endsWith_slash :: "string \<Rightarrow> bool" where
  "endsWith_slash s = (s \<noteq> [] \<and> last s = CHR ''/'')"

text \<open>\<open>s.endsWith('/') ? s.slice(0, -1) : s\<close>, which is also \<open>s.replace(/\/$/, '')\<close>.\<close>

definition strip_slash :: "string \<Rightarrow> string" where
  "strip_slash s = (if endsWith_slash s then butlast s else s)"

definition joinUrl :: "platform \<Rightarrow> string \<Rightarrow> string \<Rightarrow> string" where
  "joinUrl pf base pathSuffix =
     (case new_URL pf base of
        Some u \<Rightarrow> href (set_pathname u (strip_slash (pathname u) @ pathSuffix))
      | None \<Rightarrow> strip_slash base @ pathSuffix)"

subsection \<open>The HTTP peer\<close>

text \<open>
  What \<open>client.get\<close> sends: the parsed URL (protocol, host, port, path and query) and the
  headers. \<open>None\<close> in a conditional header means that the header is not sent.
\<close>

record request =
  target :: url
  user_agent :: string
  if_none_match :: "string option"
  if_modified_since :: "string option"

text \<open>The response headers the module reads; \<open>None\<close> is an absent header.\<close>

record headers =
  location :: "string option"
  etag_header :: "string option"
  last_modified_header :: "string option"

text \<open>
  What comes back for one request: a response (status code, headers, the whole body), the
  \<open>error\<close> event of the request, or no answer within \<open>timeoutMs\<close>, when the timer
  destroys the request with \<open>Request timed out\<close>. \<open>res.statusCode || 0\<close> is the status.
\<close>

datatype reply =
    Response nat headers string
  | RequestError js_error
  | NoAnswer

text \<open>
  The peer answers a request knowing all the requests made before it, so that a server
  may change its answers over time.
\<close>

type_synonym network = "request list \<Rightarrow> request \<Rightarrow> reply"

text \<open>The options object of the two fetch functions.\<close>

record fetch_options =
  opt_userAgent :: string
  opt_timeoutMs :: number
  opt_etag :: "string option"
  opt_lastModified :: "string option"

text \<open>What \<open>fetchTextFileWithMetadata\<close> resolves with.\<close>

record fetched =
  statusCode :: nat
  text_of :: string
  etag_of :: "string option"
  lastModified_of :: "string option"

text \<open>\<open>status >= 300 && status < 400 && location\<close>: the location to follow, if any.\<close>

definition redirect_location :: "nat \<Rightarrow> headers \<Rightarrow> string option" where
  "redirect_location status hs =
     (if 300 \<le> status \<and> status < 400 \<and> truthy (location hs) then location hs else None)"

definition conditional_request :: "url \<Rightarrow> fetch_options \<Rightarrow> request" where
  "conditional_request parsed opts =
     \<lparr>target = parsed\<lparr>hash := []\<rparr>, user_agent = opt_userAgent opts,
      if_none_match = or_null (opt_etag opts),
      if_modified_since = or_null (opt_lastModified opts)\<rparr>"


text \<open>
  \<open>fetchTextFileWithMetadata\<close>. The third argument is the list of the requests made so
  far; the result carries the list extended by the requests of this call. The function
  calls itself on every redirect, without a counter, so it is a partial function:
  \<open>None\<close> is a promise that never settles.
\<close>

partial_function (option) fetchTextFileWithMetadata ::
  "platform \<Rightarrow> network \<Rightarrow> request list \<Rightarrow> string \<Rightarrow> fetch_options
     \<Rightarrow> (fetched completion \<times> request list) option"
where
  "fetchTextFileWithMetadata pf net sent fileUrl opts =
     (case new_URL pf fileUrl of
        None \<Rightarrow> Some (Rejected (InvalidUrl fileUrl), sent)
      | Some parsed \<Rightarrow>
          (case net sent (conditional_request parsed opts) of
             RequestError e \<Rightarrow> Some (Rejected e, sent @ [conditional_request parsed opts])
           | NoAnswer \<Rightarrow> Some (Rejected RequestTimedOut, sent @ [conditional_request parsed opts])
           | Response status hs body \<Rightarrow>
               (case redirect_location status hs of
                  Some loc \<Rightarrow>
                    (case new_URL_base pf loc parsed of
                       None \<Rightarrow> Some (Uncaught (OtherError ''Invalid URL''), sent @ [conditional_request parsed opts])
                     | Some next \<Rightarrow>
                         fetchTextFileWithMetadata pf net (sent @ [conditional_request parsed opts])
                           (href next) opts)
                | None \<Rightarrow>
                    if status = 304 then
                      Some (Resolved \<lparr>statusCode = 304, text_of = [],
                              etag_of = or_null (opt_etag opts),
                              lastModified_of = or_null (opt_lastModified opts)\<rparr>,
                            sent @ [conditional_request parsed opts])
                    else if status \<noteq> 200 then
                      Some (Rejected (RequestFailed status), sent @ [conditional_request parsed opts])
                    else
                      Some (Resolved \<lparr>statusCode = 200, text_of = body,
                              etag_of = or_null (etag_header hs),
                              lastModified_of = or_null (last_modified_header hs)\<rparr>,
                            sent @ [conditional_request parsed opts]))))"

declare fetchTextFileWithMetadata.simps [code]



subsection \<open>Configuration, files and the world around one call\<close>

text \<open>The fields of the configuration object that \<open>ensureFreshLlmsFile\<close> destructures.\<close>

record config =
  publicUrl :: string
  outputDir :: string
  outputFile :: string
  userAgent :: string
  timeoutMs :: number
  ttlHours :: number

text \<open>
  The object kept in \<open>.llms.meta.json\<close>. \<open>None\<close> is a field that is \<open>null\<close> or
  missing; for \<open>lastFetchedAtMs\<close> it is also a value that is not a number. A stored
  timestamp is integral, as every value the module writes (\<open>Date.now()\<close>).
\<close>

record metadata =
  etag :: "string option"
  lastModified :: "string option"
  lastFetchedAtMs :: "int option"

definition empty_meta :: metadata where
  "empty_meta = \<lparr>etag = None, lastModified = None, lastFetchedAtMs = None\<rparr>"

text \<open>
  The metadata file holds text that \<open>JSON.parse\<close> either rejects or turns into an
  object; \<open>JSON.stringify\<close> followed by \<open>JSON.parse\<close> gives the object back.
\<close>

datatype meta_json = Corrupt | Json metadata

text \<open>
  The world of one call: the clock (\<open>Date.now()\<close>), the content file at \<open>outPath\<close> and
  the metadata file at \<open>metaPath\<close> (\<open>None\<close>: no such file), the requests sent so far, the
  warnings given to \<open>log.warn\<close>, the HTTP peer, and the errors that \<open>fs.mkdirSync\<close> on
  the output directory and \<open>fs.writeFileSync\<close> on each of the two files would throw
  (\<open>None\<close>: the operation succeeds). The two paths are taken to name two different
  files, so \<open>outputFile\<close> is not \<open>.llms.meta.json\<close>.
\<close>

record world =
  clock :: int
  content_file :: "string option"
  meta_file :: "meta_json option"
  sent_requests :: "request list"
  warnings :: "string list"
  peer :: network
  mkdir_failure :: "js_error option"
  content_write_failure :: "js_error option"
  meta_write_failure :: "js_error option"

text \<open>
  \<open>path.resolve(process.cwd(), outputDir, outputFile)\<close> for a relative directory and a
  file name without \<open>.\<close> and \<open>..\<close> segments; the working directory is a parameter.
\<close>

definition path_resolve :: "string \<Rightarrow> string \<Rightarrow> string \<Rightarrow> string" where
  "path_resolve cwd dir file = cwd @ ''/'' @ dir @ ''/'' @ file"

definition outPath :: "string \<Rightarrow> config \<Rightarrow> string" where
  "outPath cwd cfg = path_resolve cwd (outputDir cfg) (outputFile cfg)"

definition metadataFilePath :: "string \<Rightarrow> string \<Rightarrow> string" where
  "metadataFilePath cwd dir = path_resolve cwd dir ''.llms.meta.json''"

text \<open>\<open>readJsonSafe(metaPath)\<close>: \<open>None\<close> is \<open>null\<close>, for a missing or unparsable file.\<close>

fun readJsonSafe :: "meta_json option \<Rightarrow> metadata option" where
  "readJsonSafe None = None"
| "readJsonSafe (Some Corrupt) = None"
| "readJsonSafe (Some (Json m)) = Some m"

text \<open>\<open>readJsonSafe(metaPath) || {}\<close>\<close>

definition stored_meta :: "world \<Rightarrow> metadata" where
  "stored_meta w = (case readJsonSafe (meta_file w) of Some m \<Rightarrow> m | None \<Rightarrow> empty_meta)"

text \<open>\<open>typeof meta.lastFetchedAtMs === 'number' ? meta.lastFetchedAtMs : 0\<close>\<close>

definition stored_lastFetchedAtMs :: "world \<Rightarrow> int" where
  "stored_lastFetchedAtMs w = (case lastFetchedAtMs (stored_meta w) of Some t \<Rightarrow> t | None \<Rightarrow> 0)"

text \<open>
  \<open>writeJsonSafe(metaPath, data)\<close>: the directory is created, then the file is written;
  whatever either step throws is caught and dropped.
\<close>

definition writeJsonSafe :: "world \<Rightarrow> metadata \<Rightarrow> world" where
  "writeJsonSafe w data =
     (case mkdir_failure w of
        Some e \<Rightarrow> w
      | None \<Rightarrow>
          (case meta_write_failure w of
             Some e \<Rightarrow> w
           | None \<Rightarrow> w\<lparr>meta_file := Some (Json data)\<rparr>))"

text \<open>
  \<open>Math.max(0, Math.floor((Number.isFinite(ttlHours) ? ttlHours : 24) * 60 * 60 * 1000))\<close>
\<close>

definition ttlMs :: "number \<Rightarrow> int" where
  "ttlMs h =
     max 0 \<lfloor>(if isFinite h then (case h of Num q \<Rightarrow> q | _ \<Rightarrow> 0) else 24) * 60 * 60 * 1000\<rfloor>"

text \<open>
  \<open>fileExists && lastFetchedAtMs && now - lastFetchedAtMs < ttlMs\<close>, the test that
  returns the cached path at once.
\<close>

definition fresh_enough :: "config \<Rightarrow> world \<Rightarrow> bool" where
  "fresh_enough cfg w =
     (content_file w \<noteq> None \<and> stored_lastFetchedAtMs w \<noteq> 0
      \<and> clock w - stored_lastFetchedAtMs w < ttlMs (ttlHours cfg))"

text \<open>
  The \<open>catch\<close> block: with a content file the error goes to \<open>log.warn\<close> and the path is
  returned, without one the error is thrown again.
\<close>

definition on_failure :: "string \<Rightarrow> config \<Rightarrow> bool \<Rightarrow> js_error \<Rightarrow> world \<Rightarrow> string completion \<times> world" where
  "on_failure cwd cfg fileExists err w =
     (if fileExists then
        (Resolved (outPath cwd cfg),
         w\<lparr>warnings := warnings w @ [''llms-fetcher ensureFresh: '' @ message err @ '' (serving cached)'']\<rparr>)
      else (Rejected err, w))"

text \<open>The options that \<open>ensureFreshLlmsFile\<close> passes to the fetch.\<close>

definition fetch_options_of :: "config \<Rightarrow> metadata \<Rightarrow> fetch_options" where
  "fetch_options_of cfg meta =
     \<lparr>opt_userAgent = userAgent cfg, opt_timeoutMs = timeoutMs cfg,
      opt_etag = etag meta, opt_lastModified = lastModified meta\<rparr>"

text \<open>
  \<open>ensureFreshLlmsFile\<close>. \<open>fileExists\<close> is read once, before the fetch, and the
  \<open>try\<close> block covers the fetch, the creation of the directory and the write of the
  content; the two metadata writes go through \<open>writeJsonSafe\<close>.
\<close>

definition ensureFreshLlmsFile :: "platform \<Rightarrow> string \<Rightarrow> config \<Rightarrow> world \<Rightarrow> (string completion \<times> world) option" where
  "ensureFreshLlmsFile pf cwd cfg w =
     (if publicUrl cfg = [] then Some (Rejected PublicUrlRequired, w)
      else
        let sourceUrl = joinUrl pf (publicUrl cfg) ''/llms.txt'';
            meta = stored_meta w;
            now = clock w;
            fileExists = (content_file w \<noteq> None)
        in
          if fresh_enough cfg w then Some (Resolved (outPath cwd cfg), w)
          else
            (case fetchTextFileWithMetadata pf (peer w) (sent_requests w) sourceUrl
                    (fetch_options_of cfg meta) of
               None \<Rightarrow> None
             | Some (Uncaught e, sent) \<Rightarrow> Some (Uncaught e, w\<lparr>sent_requests := sent\<rparr>)
             | Some (Rejected err, sent) \<Rightarrow>
                 Some (on_failure cwd cfg fileExists err (w\<lparr>sent_requests := sent\<rparr>))
             | Some (Resolved resp, sent) \<Rightarrow>
                 if statusCode resp = 304 then
                   Some (Resolved (outPath cwd cfg),
                         writeJsonSafe (w\<lparr>sent_requests := sent\<rparr>)
                           \<lparr>etag = or_null (etag meta), lastModified = or_null (lastModified meta),
                            lastFetchedAtMs = Some now\<rparr>)
                 else
                   (case mkdir_failure w of
                      Some e \<Rightarrow> Some (on_failure cwd cfg fileExists e (w\<lparr>sent_requests := sent\<rparr>))
                    | None \<Rightarrow>
                        (case content_write_failure w of
                           Some e \<Rightarrow> Some (on_failure cwd cfg fileExists e (w\<lparr>sent_requests := sent\<rparr>))
                         | None \<Rightarrow>
                             Some (Resolved (outPath cwd cfg),
                                   writeJsonSafe (w\<lparr>sent_requests := sent, content_file := Some (text_of resp)\<rparr>)
                                     \<lparr>etag = or_null (etag_of resp),
                                      lastModified = or_null (lastModified_of resp),
                                      lastFetchedAtMs = Some now\<rparr>)))))"

subsection \<open>msUntilNextRunAt\<close>

text \<open>\<open>s.split(':')\<close>, for any separator character.\<close>

fun split_on :: "char \<Rightarrow> string \<Rightarrow> string list" where
  "split_on c [] = [[]]"
| "split_on c (x # xs) =
     (if x = c then [] # split_on c xs
      else (case split_on c xs of p # ps \<Rightarrow> (x # p) # ps | [] \<Rightarrow> [[x]]))"













subsection \<open>A concrete platform and concrete peers\<close>

text \<open>
  A small parser to run the functions on concrete inputs. It accepts \<open>http\<close> and
  \<open>https\<close> URLs of a plain shape, in which Node's parser finds nothing to normalise
  (lower-case host without port or credentials, path segments of unreserved characters
  other than \<open>.\<close> and \<open>..\<close>, a non-empty query and fragment of such characters), and
  rejects every other string. It agrees with \<open>new URL\<close> on the strings it accepts and
  on strings without a scheme; it says nothing about the others.
\<close>

definition host_char :: "char \<Rightarrow> bool" where
  "host_char c = (c \<in> set ''abcdefghijklmnopqrstuvwxyz0123456789.-'')"

definition plain_char :: "char \<Rightarrow> bool" where
  "plain_char c = (c \<in> set ''abcdefghijklmnopqrstuvwxyz0123456789.-_~/=&'')"

definition plain_URL :: "string \<Rightarrow> url option" where
  "plain_URL s =
     (let scheme = (if take 8 s = ''https://'' then ''https:''
                    else if take 7 s = ''http://'' then ''http:'' else []);
          rest = drop (length scheme + 2) s;
          host = takeWhile (\<lambda>c. c \<notin> set ''/?#'') rest;
          r1 = dropWhile (\<lambda>c. c \<notin> set ''/?#'') rest;
          path = takeWhile (\<lambda>c. c \<notin> set ''?#'') r1;
          r2 = dropWhile (\<lambda>c. c \<notin> set ''?#'') r1;
          query = takeWhile (\<lambda>c. c \<noteq> CHR ''#'') r2;
          frag = dropWhile (\<lambda>c. c \<noteq> CHR ''#'') r2
      in if scheme = [] \<or> host = [] \<or> \<not> list_all host_char host
            \<or> \<not> list_all plain_char path
            \<or> ''.'' \<in> set (split_on CHR ''/'' path) \<or> ''..'' \<in> set (split_on CHR ''/'' path)
            \<or> length query = 1 \<or> \<not> list_all plain_char (drop 1 query)
            \<or> length frag = 1 \<or> \<not> list_all plain_char (drop 1 frag)
         then None
         else Some \<lparr>protocol = scheme, authority = ''//'' @ host,
                    pathname = (if path = [] then ''/'' else path),
                    search = query, hash = frag, opaque_path = False\<rparr>)"

text \<open>
  \<open>new URL(loc, base)\<close> for a location that is an absolute URL of that shape or a path
  starting with one slash.
\<close>

definition plain_URL_base :: "string \<Rightarrow> url \<Rightarrow> url option" where
  "plain_URL_base loc base =
     (if take 7 loc = ''http://'' \<or> take 8 loc = ''https://'' then plain_URL loc
      else if take 1 loc = ''/'' \<and> take 2 loc \<noteq> ''//'' then plain_URL (protocol base @ authority base @ loc)
      else None)"

definition plain_platform :: platform where
  "plain_platform = \<lparr>new_URL = plain_URL, new_URL_base = plain_URL_base\<rparr>"

text \<open>A configuration, and worlds and peers to run \<open>ensureFreshLlmsFile\<close> in.\<close>

definition example_config :: config where
  "example_config =
     \<lparr>publicUrl = ''https://example.com/docs/'', outputDir = ''public'', outputFile = ''llms.txt'',
      userAgent = ''llms-fetcher/0.1'', timeoutMs = Num 20000, ttlHours = Num 24\<rparr>"

text \<open>
  A server with one version of the file, tagged \<open>abc\<close>: a request that presents the tag
  gets 304, any other request gets the body and the tag.
\<close>

definition origin_peer :: network where
  "origin_peer sent req =
     (if if_none_match req = Some ''abc''
      then Response 304 \<lparr>location = None, etag_header = Some ''abc'', last_modified_header = None\<rparr> []
      else Response 200 \<lparr>location = None, etag_header = Some ''abc'', last_modified_header = None\<rparr>
             ''# docs'')"




text \<open>A world without cache entry, at a time in November 2023.\<close>

definition first_world :: "network \<Rightarrow> world" where
  "first_world net =
     \<lparr>clock = 1700000000000, content_file = None, meta_file = None, sent_requests = [],
      warnings = [], peer = net, mkdir_failure = None, content_write_failure = None,
      meta_write_failure = None\<rparr>"

text \<open>The same world with a cache entry tagged \<open>abc\<close> that was fetched at the time \<open>t\<close>.\<close>

definition cached_world :: "network \<Rightarrow> int \<Rightarrow> world" where
  "cached_world net t =
     (first_world net)
       \<lparr>content_file := Some ''old'',
        meta_file := Some (Json \<lparr>etag = Some ''abc'', lastModified = None, lastFetchedAtMs = Some t\<rparr>)\<rparr>"



section \<open>Properties\<close>

subsection \<open>Single steps of the fetch\<close>

lemma fetch_meta_invalid:
  "new_URL pf fileUrl = None \<Longrightarrow>
   fetchTextFileWithMetadata pf net sent fileUrl opts = Some (Rejected (InvalidUrl fileUrl), sent)"
  by (subst fetchTextFileWithMetadata.simps) simp






subsection \<open>Facts about the concrete platform and worlds\<close>




lemma example_source_url:
  "joinUrl plain_platform (publicUrl example_config) ''/llms.txt'' = ''https://example.com/docs/llms.txt''"
  by (simp add: example_config_def joinUrl_def plain_platform_def plain_URL_def Let_def
        host_char_def plain_char_def href_def set_pathname_def strip_slash_def endsWith_slash_def)

lemma example_source_parsed:
  "new_URL plain_platform ''https://example.com/docs/llms.txt'' =
     Some \<lparr>protocol = ''https:'', authority = ''//example.com'', pathname = ''/docs/llms.txt'',
           search = [], hash = [], opaque_path = False\<rparr>"
  by (simp add: plain_platform_def plain_URL_def Let_def host_char_def plain_char_def)



lemma cached_world_simps:
  "content_file (cached_world net t) = Some ''old''"
  "stored_meta (cached_world net t) = \<lparr>etag = Some ''abc'', lastModified = None, lastFetchedAtMs = Some t\<rparr>"
  "stored_lastFetchedAtMs (cached_world net t) = t"
  "clock (cached_world net t) = 1700000000000"
  "peer (cached_world net t) = net"
  "sent_requests (cached_world net t) = []"
  "warnings (cached_world net t) = []"
  "mkdir_failure (cached_world net t) = None"
  "content_write_failure (cached_world net t) = None"
  "meta_write_failure (cached_world net t) = None"
  by (simp_all add: cached_world_def first_world_def stored_meta_def stored_lastFetchedAtMs_def)


subsection \<open>Failure of the fetch\<close>





subsection \<open>The branches of \<open>ensureFreshLlmsFile\<close>\<close>

lemma ensureFresh_fresh:
  "publicUrl cfg \<noteq> [] \<Longrightarrow> fresh_enough cfg w \<Longrightarrow>
   ensureFreshLlmsFile pf cwd cfg w = Some (Resolved (outPath cwd cfg), w)"
  by (simp add: ensureFreshLlmsFile_def Let_def)



lemma sent_requests_writeJsonSafe: "sent_requests (writeJsonSafe w d) = sent_requests w"
  by (simp add: writeJsonSafe_def split: option.splits)



lemma ensureFresh_goes_to_network:
  assumes "publicUrl cfg \<noteq> []" and "\<not> fresh_enough cfg w"
  shows "(fetchTextFileWithMetadata pf (peer w) (sent_requests w)
            (joinUrl pf (publicUrl cfg) ''/llms.txt'') (fetch_options_of cfg (stored_meta w)) = None
          \<longrightarrow> ensureFreshLlmsFile pf cwd cfg w = None)
       \<and> (\<forall>r sent.
            fetchTextFileWithMetadata pf (peer w) (sent_requests w)
              (joinUrl pf (publicUrl cfg) ''/llms.txt'') (fetch_options_of cfg (stored_meta w))
              = Some (r, sent)
            \<longrightarrow> (\<exists>c w'. ensureFreshLlmsFile pf cwd cfg w = Some (c, w') \<and> sent_requests w' = sent))"
  using assms
  by (auto simp add: ensureFreshLlmsFile_def Let_def on_failure_def sent_requests_writeJsonSafe
        split: completion.splits option.splits)

lemma origin_answers_example:
  "fetchTextFileWithMetadata plain_platform origin_peer []
     ''https://example.com/docs/llms.txt'' \<lparr>opt_userAgent = ua, opt_timeoutMs = tm, opt_etag = t, opt_lastModified = None\<rparr>
   = Some (if t = Some ''abc''
           then Resolved \<lparr>statusCode = 304, text_of = [], etag_of = Some ''abc'', lastModified_of = None\<rparr>
           else Resolved \<lparr>statusCode = 200, text_of = ''# docs'', etag_of = Some ''abc'', lastModified_of = None\<rparr>,
           [\<lparr>target = \<lparr>protocol = ''https:'', authority = ''//example.com'',
                        pathname = ''/docs/llms.txt'', search = [], hash = [], opaque_path = False\<rparr>,
             user_agent = ua, if_none_match = or_null t, if_modified_since = None\<rparr>])"
proof -
  have "or_null t = Some ''abc'' \<longleftrightarrow> t = Some ''abc''"
    by (cases t) (auto simp add: or_null_def)
  then show ?thesis
    by (subst fetchTextFileWithMetadata.simps)
       (simp add: example_source_parsed origin_peer_def conditional_request_def redirect_location_def
          or_null_def)
qed

subsection \<open>Not modified\<close>





subsection \<open>A metadata write that fails\<close>




subsection \<open>The time to live\<close>

lemma ttlMs_not_finite: "\<not> isFinite h \<Longrightarrow> ttlMs h = 86400000"
  by (simp add: ttlMs_def)

lemma ttlMs_not_positive: "q \<le> 0 \<Longrightarrow> ttlMs (Num q) = 0"
proof -
  assume "q \<le> 0"
  then have "q * 60 * 60 * 1000 \<le> 0"
    by (simp add: mult_le_0_iff)
  then have "\<lfloor>q * 60 * 60 * 1000\<rfloor> \<le> 0"
    by simp
  then show ?thesis
    by (simp add: ttlMs_def)
qed

text \<open>
  Claim C5, as the claim states it, fails twice. A \<open>ttlHours\<close> that is not finite counts
  as 24 hours, not as 0: with \<open>NaN\<close> and a copy fetched one second ago nothing is sent.
  And with a time to live of 0 the cached path is still returned at once, without a
  request, when the stored timestamp lies in the future of the clock.
\<close>

theorem ttl_counterexample:
  "ensureFreshLlmsFile plain_platform ''/srv'' (example_config\<lparr>ttlHours := NaN\<rparr>)
       (cached_world origin_peer 1699999999000)
     = Some (Resolved ''/srv/public/llms.txt'', cached_world origin_peer 1699999999000)
   \<and> ensureFreshLlmsFile plain_platform ''/srv'' (example_config\<lparr>ttlHours := Num 0\<rparr>)
       (cached_world origin_peer 1700000000005)
     = Some (Resolved ''/srv/public/llms.txt'', cached_world origin_peer 1700000000005)"
proof -
  have out: "\<And>h. outPath ''/srv'' (example_config\<lparr>ttlHours := h\<rparr>) = ''/srv/public/llms.txt''"
    by (simp add: outPath_def path_resolve_def example_config_def)
  have url: "\<And>h. publicUrl (example_config\<lparr>ttlHours := h\<rparr>) \<noteq> []"
    by (simp add: example_config_def)
  have f1: "fresh_enough (example_config\<lparr>ttlHours := NaN\<rparr>) (cached_world origin_peer 1699999999000)"
    by (simp add: fresh_enough_def cached_world_simps ttlMs_not_finite)
  have f2: "fresh_enough (example_config\<lparr>ttlHours := Num 0\<rparr>) (cached_world origin_peer 1700000000005)"
    by (simp add: fresh_enough_def cached_world_simps ttlMs_not_positive)
  show ?thesis
    by (simp add: ensureFresh_fresh [OF url f1] ensureFresh_fresh [OF url f2] out)
qed

text \<open>
  Claim C5, amended. A \<open>ttlHours\<close> that is finite and zero or negative gives a time to
  live of 0; one that is not finite (\<open>NaN\<close>, an infinity) gives 24 hours. With a time to
  live of 0 and a stored timestamp that is not later than the clock, the cached path is
  never returned at once: the call runs the fetch, and whatever the fetch sends is sent.
\<close>

theorem ttl_zero_always_fetches:
  "(q \<le> 0 \<longrightarrow> ttlMs (Num q) = 0)
   \<and> (\<not> isFinite h \<longrightarrow> ttlMs h = 24 * 60 * 60 * 1000)
   \<and> (publicUrl cfg \<noteq> [] \<and> ttlMs (ttlHours cfg) = 0 \<and> stored_lastFetchedAtMs w \<le> clock w \<longrightarrow>
        \<not> fresh_enough cfg w
        \<and> (fetchTextFileWithMetadata pf (peer w) (sent_requests w)
              (joinUrl pf (publicUrl cfg) ''/llms.txt'') (fetch_options_of cfg (stored_meta w)) = None
            \<longrightarrow> ensureFreshLlmsFile pf cwd cfg w = None)
        \<and> (\<forall>r sent.
              fetchTextFileWithMetadata pf (peer w) (sent_requests w)
                (joinUrl pf (publicUrl cfg) ''/llms.txt'') (fetch_options_of cfg (stored_meta w))
                = Some (r, sent)
              \<longrightarrow> (\<exists>c w'. ensureFreshLlmsFile pf cwd cfg w = Some (c, w') \<and> sent_requests w' = sent)))"
proof (intro conjI impI)
  show "ttlMs (Num q) = 0" if "q \<le> 0"
    using that by (rule ttlMs_not_positive)
  show "ttlMs h = 24 * 60 * 60 * 1000" if "\<not> isFinite h"
    using that by (simp add: ttlMs_not_finite)
next
  assume a: "publicUrl cfg \<noteq> [] \<and> ttlMs (ttlHours cfg) = 0 \<and> stored_lastFetchedAtMs w \<le> clock w"
  then show nf: "\<not> fresh_enough cfg w"
    by (simp add: fresh_enough_def)
  from a have url: "publicUrl cfg \<noteq> []"
    by simp
  note net = ensureFresh_goes_to_network [OF url nf, of pf cwd]
  show "ensureFreshLlmsFile pf cwd cfg w = None"
    if "fetchTextFileWithMetadata pf (peer w) (sent_requests w)
          (joinUrl pf (publicUrl cfg) ''/llms.txt'') (fetch_options_of cfg (stored_meta w)) = None"
    using that net by blast
  show "\<forall>r sent.
          fetchTextFileWithMetadata pf (peer w) (sent_requests w)
            (joinUrl pf (publicUrl cfg) ''/llms.txt'') (fetch_options_of cfg (stored_meta w))
            = Some (r, sent)
          \<longrightarrow> (\<exists>c w'. ensureFreshLlmsFile pf cwd cfg w = Some (c, w') \<and> sent_requests w' = sent)"
    using net by blast
qed

theorem ttl_zero_always_fetches_witness:
  "ttlMs (Num (- 3)) = 0 \<and> ttlMs (Num 0) = 0 \<and> ttlMs PosInfinity = 86400000 \<and> ttlMs NaN = 86400000
   \<and> (\<exists>c w'. ensureFreshLlmsFile plain_platform ''/srv'' (example_config\<lparr>ttlHours := Num 0\<rparr>)
                  (cached_world origin_peer 1700000000000) = Some (c, w')
              \<and> length (sent_requests w') = 1)"
proof -
  let ?cfg = "example_config\<lparr>ttlHours := Num 0\<rparr>"
  let ?w = "cached_world origin_peer 1700000000000"
  let ?sent = "[\<lparr>target = \<lparr>protocol = ''https:'', authority = ''//example.com'',
                          pathname = ''/docs/llms.txt'', search = [], hash = [], opaque_path = False\<rparr>,
                 user_agent = ''llms-fetcher/0.1'', if_none_match = Some ''abc'',
                 if_modified_since = None\<rparr>]"
  have url: "joinUrl plain_platform (publicUrl ?cfg) ''/llms.txt'' = ''https://example.com/docs/llms.txt''"
    using example_source_url by (simp add: example_config_def)
  have h: "publicUrl ?cfg \<noteq> [] \<and> ttlMs (ttlHours ?cfg) = 0 \<and> stored_lastFetchedAtMs ?w \<le> clock ?w"
    by (simp add: example_config_def cached_world_simps ttlMs_def)
  have fetched: "fetchTextFileWithMetadata plain_platform (peer ?w) (sent_requests ?w)
              (joinUrl plain_platform (publicUrl ?cfg) ''/llms.txt'')
              (fetch_options_of ?cfg (stored_meta ?w))
            = Some (Resolved \<lparr>statusCode = 304, text_of = [], etag_of = Some ''abc'', lastModified_of = None\<rparr>,
                    ?sent)"
    unfolding url
    by (simp add: cached_world_simps fetch_options_of_def origin_answers_example or_null_def
          example_config_def)
  have t1: "ttlMs (Num (- 3)) = 0"
    using ttl_zero_always_fetches [of "- 3"] by simp
  have t2: "ttlMs (Num 0) = 0"
    using ttl_zero_always_fetches [of 0] by simp
  have t3: "ttlMs PosInfinity = 86400000"
    using ttl_zero_always_fetches [of _ PosInfinity] by simp
  have t4: "ttlMs NaN = 86400000"
    using ttl_zero_always_fetches [of _ NaN] by simp
  from ttl_zero_always_fetches [of 0 NaN ?cfg ?w plain_platform "''/srv''"] h fetched
  have "\<exists>c w'. ensureFreshLlmsFile plain_platform ''/srv'' ?cfg ?w = Some (c, w') \<and> sent_requests w' = ?sent"
    by blast
  then have "\<exists>c w'. ensureFreshLlmsFile plain_platform ''/srv'' ?cfg ?w = Some (c, w')
               \<and> length (sent_requests w') = 1"
    by auto
  with t1 t2 t3 t4 show ?thesis
    by blast
qed

subsection \<open>A fresh copy\<close>





subsection \<open>Redirects\<close>











subsection \<open>The source URL\<close>






subsection \<open>The next run\<close>








end
